theory Spec2Isabelle
  imports Main
begin

unbundle bit_operations_syntax

section \<open>Errors\<close>

text \<open>
  Python exceptions as values.  \<open>ValueError\<close> and \<open>Exception\<close> carry the message of the
  \<^verbatim>\<open>raise\<close> statement they come from; \<open>OverflowError\<close> is what \<^verbatim>\<open>int.to_bytes\<close> raises,
  \<open>RecursionError\<close> what the interpreter raises when no further frame can be entered,
  \<open>TypeError\<close> what an ordering comparison of an integer with \<^verbatim>\<open>None\<close> raises.
\<close>

datatype error =
    ValueError string
  | OverflowError
  | RecursionError
  | TypeError
  | Exception string

section \<open>The xorshift generator (Fuzzing/Generators/XorShiftGenerator.py)\<close>

subsection \<open>The four transition functions\<close>

text \<open>
  Python integers are unbounded, so the state is an \<open>int\<close>; \<^verbatim>\<open><<\<close> is \<open>push_bit\<close>,
  \<^verbatim>\<open>>>\<close> is \<open>drop_bit\<close> (floor division by a power of two, as in Python), and only the
  shifted operand is masked, exactly as in the source.
\<close>

definition xorshift8 :: "int \<Rightarrow> int" where
  "xorshift8 state =
     (let s1 = state XOR (push_bit 7 state AND 0xff);
          s2 = s1 XOR (drop_bit 5 s1 AND 0xff);
          s3 = s2 XOR (push_bit 3 s2 AND 0xff)
      in s3)"

definition xorshift16 :: "int \<Rightarrow> int" where
  "xorshift16 state =
     (let s1 = state XOR (push_bit 13 state AND 0xffff);
          s2 = s1 XOR (drop_bit 9 s1 AND 0xffff);
          s3 = s2 XOR (push_bit 7 s2 AND 0xffff)
      in s3)"

definition xorshift32 :: "int \<Rightarrow> int" where
  "xorshift32 state =
     (let s1 = state XOR (push_bit 13 state AND 0xffffffff);
          s2 = s1 XOR (drop_bit 17 s1 AND 0xffffffff);
          s3 = s2 XOR (push_bit 5 s2 AND 0xffffffff)
      in s3)"

definition xorshift64 :: "int \<Rightarrow> int" where
  "xorshift64 state =
     (let s1 = state XOR (push_bit 11 state AND 0xffffffffffffffff);
          s2 = s1 XOR (drop_bit 5 s1 AND 0xffffffffffffffff);
          s3 = s2 XOR (push_bit 32 s2 AND 0xffffffffffffffff)
      in s3)"

subsection \<open>The generator object\<close>

text \<open>
  The attributes of a \<^verbatim>\<open>XorShiftGenerator\<close> instance.  \<open>seed\<close> is the attribute kept by the
  parent class \<^verbatim>\<open>Generator\<close>, which \<^verbatim>\<open>__next__\<close> reads back as \<^verbatim>\<open>self.seed\<close>.
\<close>

record XorShiftGenerator =
  seed :: int
  state :: int
  minValue :: int
  maxValue :: int
  signed :: bool
  firstCall :: bool
  nbCall :: int
  bitsize :: int
  xorshift_func :: "int \<Rightarrow> int"

text \<open>
  Modelled from the spec: \<^verbatim>\<open>AbstractType.computeUnitSize\<close> is not part of the sources at
  hand.  The spec selects the smallest width of 8, 16, 32 and 64 bits that can represent
  the given number of distinct values, and names a 4-bit class that the constructor rounds
  up to 8.  The function returns the numeric \<^verbatim>\<open>.value\<close> of the unit size.
\<close>

definition computeUnitSize :: "int \<Rightarrow> error + int" where
  "computeUnitSize n =
     (if n \<le> 2 ^ 4 then Inr 4
      else if n \<le> 2 ^ 8 then Inr 8
      else if n \<le> 2 ^ 16 then Inr 16
      else if n \<le> 2 ^ 32 then Inr 32
      else if n \<le> 2 ^ 64 then Inr 64
      else Inl (Exception ''no unit size for this length''))"

text \<open>
  \<^verbatim>\<open>__init__\<close>.  The unit-size computation is a parameter \<open>cus\<close>; \<open>None\<close> for a bound is the
  Python default argument, which the property setters reject.  The order of the checks is
  the order of the source: seed, \<^verbatim>\<open>minValue\<close>, \<^verbatim>\<open>maxValue\<close>, unit size, supported width.
\<close>

definition XorShiftGenerator_init ::
  "(int \<Rightarrow> error + int) \<Rightarrow> int \<Rightarrow> int option \<Rightarrow> int option \<Rightarrow> bool \<Rightarrow> error + XorShiftGenerator"
where
  "XorShiftGenerator_init cus sd mn mx sg =
     (if sd = 0 then
        Inl (ValueError ''A seed=0 is not compatible with the generator XorShiftGenerator'')
      else case mn of
        None \<Rightarrow> Inl (ValueError ''minValue should not be None'')
      | Some lo \<Rightarrow>
          (case mx of
             None \<Rightarrow> Inl (ValueError ''maxValue should not be None'')
           | Some hi \<Rightarrow>
               (case cus (\<bar>hi - lo\<bar> + 1) of
                  Inl e \<Rightarrow> Inl e
                | Inr us \<Rightarrow>
                    (let bs = (if us = 4 then 8 else us);
                         g = \<lparr>seed = sd, state = sd, minValue = lo, maxValue = hi,
                              signed = sg, firstCall = True, nbCall = 0, bitsize = bs,
                              xorshift_func = xorshift8\<rparr>
                     in if bs = 8 then Inr g
                        else if bs = 16 then Inr (g\<lparr>xorshift_func := xorshift16\<rparr>)
                        else if bs = 32 then Inr (g\<lparr>xorshift_func := xorshift32\<rparr>)
                        else if bs = 64 then Inr (g\<lparr>xorshift_func := xorshift64\<rparr>)
                        else Inl (ValueError ''Bitsize value not supported'')))))"

text \<open>\<^verbatim>\<open>xorshift\<close>: advance the state once and return it.\<close>

definition xorshift :: "XorShiftGenerator \<Rightarrow> int \<times> XorShiftGenerator" where
  "xorshift g = (let s = xorshift_func g (state g) in (s, g\<lparr>state := s\<rparr>))"

text \<open>
  The signed conversion of \<^verbatim>\<open>__inner_next__\<close>:
  \<^verbatim>\<open>int.from_bytes(result.to_bytes(bitsize // 8, 'big', signed=False), 'big', signed=True)\<close>.
  \<^verbatim>\<open>to_bytes\<close> raises \<^verbatim>\<open>OverflowError\<close> for a negative value and for one that does not fit
  the byte count; \<^verbatim>\<open>from_bytes\<close> reads the bytes as two's complement.
\<close>

definition uint_to_int :: "int \<Rightarrow> int \<Rightarrow> error + int" where
  "uint_to_int bs r =
     (let w = 8 * nat (bs div 8) in
      if r < 0 \<or> 2 ^ w \<le> r then Inl OverflowError
      else if 0 < w \<and> 2 ^ (w - 1) \<le> r then Inr (r - 2 ^ w)
      else Inr r)"

text \<open>
  \<^verbatim>\<open>__inner_next__\<close>.  The recursion of the source is bounded only by the interpreter's
  recursion limit, so the first argument is the number of frames that can still be
  entered: with none left the call raises \<^verbatim>\<open>RecursionError\<close>; inside a frame the call of
  \<^verbatim>\<open>self.xorshift()\<close> needs two more frames (the method and the transition function) and
  raises otherwise, outside the \<^verbatim>\<open>try\<close> block.  Only the recursive call is inside the
  \<^verbatim>\<open>try\<close>, and only \<^verbatim>\<open>RecursionError\<close> is caught there and turned into \<^verbatim>\<open>None\<close>.
  The result \<open>Inr None\<close> is Python's \<^verbatim>\<open>None\<close>.
\<close>

fun inner_next :: "nat \<Rightarrow> XorShiftGenerator \<Rightarrow> (error + int option) \<times> XorShiftGenerator" where
  "inner_next 0 g = (Inl RecursionError, g)"
| "inner_next (Suc d) g =
     (if \<not> firstCall g \<and> d < 2 then (Inl RecursionError, g)
      else
        let (result, g1) = (if firstCall g then (0, g\<lparr>firstCall := False\<rparr>) else xorshift g)
        in case (if signed g1 then uint_to_int (bitsize g1) result else Inr result) of
             Inl e \<Rightarrow> (Inl e, g1)
           | Inr r \<Rightarrow>
               if \<not> (minValue g1 \<le> r \<and> r \<le> maxValue g1) then
                 (case inner_next d g1 of
                    (Inl e, g2) \<Rightarrow> if e = RecursionError then (Inr None, g2) else (Inl e, g2)
                  | (Inr v, g2) \<Rightarrow> (Inr v, g2))
               else (Inr (Some r), g1))"

text \<open>\<^verbatim>\<open>__next__\<close>, with the frame budget \<open>rl\<close> left for \<^verbatim>\<open>__inner_next__\<close>.\<close>

definition XorShiftGenerator_next ::
  "nat \<Rightarrow> XorShiftGenerator \<Rightarrow> (error + int option) \<times> XorShiftGenerator"
where
  "XorShiftGenerator_next rl g =
     (let g1 = (if nbCall g = 0 then g\<lparr>firstCall := True, state := seed g\<rparr>
                else g\<lparr>firstCall := False\<rparr>);
          nb_values = \<bar>maxValue g1 - minValue g1\<bar> + 1;
          g2 = g1\<lparr>nbCall := (nbCall g1 + 1) mod nb_values\<rparr>
      in inner_next rl g2)"

definition get_state :: "XorShiftGenerator \<Rightarrow> int \<times> bool" where
  "get_state g = (state g, firstCall g)"

definition set_state :: "XorShiftGenerator \<Rightarrow> int \<times> bool \<Rightarrow> XorShiftGenerator" where
  "set_state g s = g\<lparr>state := fst s, firstCall := snd s\<rparr>"

text \<open>
  A run of \<open>k\<close> successive calls of \<^verbatim>\<open>next(g)\<close>: the results in order and the generator
  afterwards.
\<close>

fun draws :: "nat \<Rightarrow> nat \<Rightarrow> XorShiftGenerator \<Rightarrow> (error + int option) list \<times> XorShiftGenerator" where
  "draws rl 0 g = ([], g)"
| "draws rl (Suc k) g =
     (let (r, g1) = XorShiftGenerator_next rl g;
          (rs, g2) = draws rl k g1
      in (r # rs, g2))"

text \<open>
  Two generators used as concrete inputs below: the one \<^verbatim>\<open>XorShiftGenerator(14, 126, 126)\<close>
  constructs and the one \<^verbatim>\<open>XorShiftGenerator(203, 0, 1)\<close> constructs.
\<close>

definition gen_126 :: XorShiftGenerator where
  "gen_126 = \<lparr>seed = 14, state = 14, minValue = 126, maxValue = 126, signed = False,
              firstCall = True, nbCall = 0, bitsize = 8, xorshift_func = xorshift8\<rparr>"

definition gen_203 :: XorShiftGenerator where
  "gen_203 = \<lparr>seed = 203, state = 203, minValue = 0, maxValue = 1, signed = False,
              firstCall = True, nbCall = 0, bitsize = 8, xorshift_func = xorshift8\<rparr>"

text \<open>
  The first half of \<^verbatim>\<open>__next__\<close> on its own: the generator as it is handed to
  \<^verbatim>\<open>__inner_next__\<close>, after the counter test, the reset and the counter update.
\<close>

definition next_entry :: "XorShiftGenerator \<Rightarrow> XorShiftGenerator" where
  "next_entry g =
     (let g1 = (if nbCall g = 0 then g\<lparr>firstCall := True, state := seed g\<rparr>
                else g\<lparr>firstCall := False\<rparr>);
          nb_values = \<bar>maxValue g1 - minValue g1\<bar> + 1
      in g1\<lparr>nbCall := (nbCall g1 + 1) mod nb_values\<rparr>)"

text \<open>
  The generator that a frame of \<^verbatim>\<open>__inner_next__\<close> hands to its recursive call: the
  first-call flag cleared, or the state advanced once.
\<close>

definition after_draw :: "XorShiftGenerator \<Rightarrow> XorShiftGenerator" where
  "after_draw g = (if firstCall g then g\<lparr>firstCall := False\<rparr> else snd (xorshift g))"

text \<open>
  The words of the claims about draws.  The raw draws of one call, counted from 0: the
  forced 0 if the first-call flag is set, and the successive states of the transition
  function.  A raw draw is converted when the generator is signed; it is accepted with the
  value \<open>v\<close> when the conversion gives \<open>v\<close> inside the interval, and rejected when the
  conversion gives a value outside the interval.
\<close>

definition raw_draw :: "XorShiftGenerator \<Rightarrow> nat \<Rightarrow> int" where
  "raw_draw g k =
     (if firstCall g then (if k = 0 then 0 else (xorshift_func g ^^ k) (state g))
      else (xorshift_func g ^^ Suc k) (state g))"

definition convert_draw :: "XorShiftGenerator \<Rightarrow> int \<Rightarrow> error + int" where
  "convert_draw g x = (if signed g then uint_to_int (bitsize g) x else Inr x)"

definition accepted :: "XorShiftGenerator \<Rightarrow> nat \<Rightarrow> int \<Rightarrow> bool" where
  "accepted g k v \<longleftrightarrow>
     convert_draw g (raw_draw g k) = Inr v \<and> minValue g \<le> v \<and> v \<le> maxValue g"

definition rejected :: "XorShiftGenerator \<Rightarrow> nat \<Rightarrow> bool" where
  "rejected g k \<longleftrightarrow>
     (case convert_draw g (raw_draw g k) of
        Inl e \<Rightarrow> False
      | Inr r \<Rightarrow> \<not> (minValue g \<le> r \<and> r \<le> maxValue g))"

text \<open>
  More generators used as concrete inputs: \<^verbatim>\<open>XorShiftGenerator(14, 149, 149)\<close>, and the
  signed \<^verbatim>\<open>XorShiftGenerator(1000, -20, -20, signed=True)\<close> and
  \<^verbatim>\<open>XorShiftGenerator(14, 200, 200, signed=True)\<close>.
\<close>

definition gen_149 :: XorShiftGenerator where
  "gen_149 = \<lparr>seed = 14, state = 14, minValue = 149, maxValue = 149, signed = False,
              firstCall = True, nbCall = 0, bitsize = 8, xorshift_func = xorshift8\<rparr>"



section \<open>Symbol equality (Model/Vocabulary/Symbol.py)\<close>

text \<open>
  A symbol has a name, an ordered list of fields and a list of messages; the field and
  message types are left open.  The right operand of \<^verbatim>\<open>==\<close> is any Python object: a
  symbol, \<^verbatim>\<open>None\<close>, or something else.
\<close>

record ('f, 'm) Symbol =
  name :: string
  symbol_fields :: "'f list"
  symbol_messages :: "'m list"

datatype ('f, 'm) pyobject = SymbolObj "('f, 'm) Symbol" | NoneObj | OtherObj

text \<open>\<^verbatim>\<open>__eq__\<close> and \<^verbatim>\<open>__ne__\<close>, each with the checks of the source in their order.\<close>

definition Symbol_eq :: "('f, 'm) Symbol \<Rightarrow> ('f, 'm) pyobject \<Rightarrow> bool" where
  "Symbol_eq self other =
     (case other of
        SymbolObj s \<Rightarrow> name self = name s
      | NoneObj \<Rightarrow> False
      | OtherObj \<Rightarrow> False)"

definition Symbol_ne :: "('f, 'm) Symbol \<Rightarrow> ('f, 'm) pyobject \<Rightarrow> bool" where
  "Symbol_ne self other =
     (case other of
        NoneObj \<Rightarrow> True
      | OtherObj \<Rightarrow> True
      | SymbolObj s \<Rightarrow> name s \<noteq> name self)"

definition sym_A1 :: "(nat, nat) Symbol" where
  "sym_A1 = \<lparr>name = ''A'', symbol_fields = [1], symbol_messages = []\<rparr>"

definition sym_B1 :: "(nat, nat) Symbol" where
  "sym_B1 = \<lparr>name = ''B'', symbol_fields = [1], symbol_messages = []\<rparr>"

definition sym_A23 :: "(nat, nat) Symbol" where
  "sym_A23 = \<lparr>name = ''A'', symbol_fields = [2, 3], symbol_messages = []\<rparr>"

section \<open>The Data leaf variable (Model/Vocabulary/Domain/Variables/Leafs/Data.py)\<close>

text \<open>
  What \<^verbatim>\<open>domainCMP\<close> reads of a type: its \<^verbatim>\<open>size\<close> pair, each component an integer or
  \<^verbatim>\<open>None\<close> (a type without size constraint has the size \<^verbatim>\<open>(None, None)\<close>), and its
  \<^verbatim>\<open>canParse\<close> predicate.  Bit arrays are lists of booleans.
\<close>

record AbstractType =
  type_size :: "int option \<times> int option"
  canParse :: "bool list \<Rightarrow> bool"

record Data =
  ident :: nat
  dataType :: AbstractType
  currentValue :: "bool list option"

text \<open>
  Modelled from the spec: the class \<^verbatim>\<open>ParsingPath\<close> is not part of the sources at hand.
  A path carries the content still available to each variable, the results bound so far
  and a memory, all keyed by variable identity; duplicating a path gives an independent
  copy, and \<^verbatim>\<open>addResult\<close> binds a result.  \<^verbatim>\<open>getData\<close> fails when no content is assigned.
\<close>

record ParsingPath =
  dataAssigned :: "nat \<rightharpoonup> bool list"
  results :: "nat \<rightharpoonup> bool list"
  memory :: "nat \<rightharpoonup> bool list"

definition getData :: "ParsingPath \<Rightarrow> Data \<Rightarrow> error + bool list" where
  "getData p v =
     (case dataAssigned p (ident v) of
        None \<Rightarrow> Inl (Exception ''No data assigned to variable'')
      | Some c \<Rightarrow> Inr c)"

definition duplicate :: "ParsingPath \<Rightarrow> ParsingPath" where
  "duplicate p = p"

definition addResult :: "ParsingPath \<Rightarrow> Data \<Rightarrow> bool list \<Rightarrow> ParsingPath" where
  "addResult p v bits = p\<lparr>results := (results p)(ident v \<mapsto> bits)\<rparr>"

text \<open>
  Python's \<^verbatim>\<open>content[:size]\<close> (a negative bound counts from the end) and
  \<^verbatim>\<open>range(a, b, -1)\<close>, which runs from \<open>a\<close> down to \<open>b + 1\<close>.
\<close>

definition py_slice_to :: "'a list \<Rightarrow> int \<Rightarrow> 'a list" where
  "py_slice_to xs n = (if 0 \<le> n then take (nat n) xs else take (length xs - nat (- n)) xs)"

definition py_range_down :: "int \<Rightarrow> int \<Rightarrow> int list" where
  "py_range_down a b = rev [b + 1..a]"

text \<open>
  \<^verbatim>\<open>domainCMP\<close> is a Python generator; the list is the sequence of paths it yields, in
  order.  The source replaces a maximum size of \<^verbatim>\<open>None\<close> by the content length but has no
  such replacement for the minimum size, so with a minimum size of \<^verbatim>\<open>None\<close> the comparison
  \<^verbatim>\<open>len(content) < minSize\<close> raises \<^verbatim>\<open>TypeError\<close>.  The only \<^verbatim>\<open>raise\<close> statement is the one
  for a missing path.
\<close>

definition domainCMP :: "Data \<Rightarrow> ParsingPath option \<Rightarrow> error + ParsingPath list" where
  "domainCMP self parsingPath =
     (case parsingPath of
        None \<Rightarrow> Inl (Exception ''ParsingPath cannot be None'')
      | Some p \<Rightarrow>
          (case getData p self of
             Inl e \<Rightarrow> Inl e
           | Inr content \<Rightarrow>
               (let (minSize0, maxSize0) = type_size (dataType self);
                    len = int (length content);
                    maxSize = (case maxSize0 of None \<Rightarrow> len | Some m \<Rightarrow> m)
                in case minSize0 of
                     None \<Rightarrow> Inl TypeError
                   | Some minSize \<Rightarrow>
                       if len < minSize then Inr []
                       else Inr (map (\<lambda>size. addResult (duplicate p) self
                                              (py_slice_to content size))
                                  (filter (\<lambda>size. size = 0
                                              \<or> canParse (dataType self) (py_slice_to content size))
                                     (py_range_down (min maxSize len) (minSize - 1)))))))"


text \<open>
  Concrete inputs: a variable of a type of exactly 8 bits that accepts nothing, a path
  that offers it 8 bits and a path that offers it 4 bits.
\<close>

definition reject_all_data :: Data where
  "reject_all_data =
     \<lparr>ident = 0, dataType = \<lparr>type_size = (Some 8, Some 8), canParse = (\<lambda>bits. False)\<rparr>,
      currentValue = None\<rparr>"

definition eight_bits_path :: ParsingPath where
  "eight_bits_path =
     \<lparr>dataAssigned = [0 \<mapsto> replicate 8 False], results = Map.empty, memory = Map.empty\<rparr>"

definition four_bits_path :: ParsingPath where
  "four_bits_path =
     \<lparr>dataAssigned = [0 \<mapsto> replicate 4 False], results = Map.empty, memory = Map.empty\<rparr>"

section \<open>The deterministic integer mutator (Fuzzing/DeterministIntegerMutator.py)\<close>

text \<open>
  Modelled from the spec: the class \<^verbatim>\<open>Integer\<close> is not part of the sources at hand.  Of an
  integer type the mutator reads its logical value bounds and its storage bounds.
\<close>

record Integer =
  getMinValue :: int
  getMaxValue :: int
  getMinStorageValue :: int
  getMaxStorageValue :: int

text \<open>
  Modelled from the spec: an 8-bit unsigned integer type, whose value bounds and storage
  bounds are both 0 and 255.
\<close>

definition uint8_Integer :: Integer where
  "uint8_Integer =
     \<lparr>getMinValue = 0, getMaxValue = 255, getMinStorageValue = 0, getMaxStorageValue = 255\<rparr>"

text \<open>
  The \<^verbatim>\<open>domain\<close> argument as the sanity checks of \<^verbatim>\<open>__init__\<close> see it: an object that is an
  \<^verbatim>\<open>AbstractVariable\<close> or not, with a \<^verbatim>\<open>dataType\<close> attribute or without one, whose type is
  an \<^verbatim>\<open>Integer\<close> or something else.
\<close>

datatype dataType_obj = IntegerType Integer | OtherType

datatype domain_obj = Variable "dataType_obj option" | NotAVariable

text \<open>
  The \<^verbatim>\<open>interval\<close> argument: \<^verbatim>\<open>None\<close>, a pair of integers, one of the two constants of the
  class \<^verbatim>\<open>Mutator\<close> (modelled from the spec as two distinct tags, the class not being part
  of the sources at hand), or any other object.
\<close>

datatype interval_arg =
    IntervalNone
  | IntervalTuple int int
  | DEFAULT_INTERVAL
  | FULL_INTERVAL
  | IntervalOther

text \<open>
  The attributes of a mutator.  \<open>currentCounter\<close> and \<open>counterMax\<close> belong to the parent
  class \<^verbatim>\<open>Mutator\<close>; \<open>ng\<close> is the deterministic generator, of an open type.
\<close>

record 'g DeterministIntegerMutator =
  mut_minValue :: int
  mut_maxValue :: int
  mut_dataType :: Integer
  currentCounter :: int
  counterMax :: int
  ng :: 'g

text \<open>
  \<^verbatim>\<open>__init__\<close>.  The parent constructor and \<^verbatim>\<open>DeterministGenerator.createValues\<close> are not
  part of the sources at hand: \<open>cmax\<close> is the counter maximum the parent constructor
  configures (it starts the counter at 0), and \<open>createValues\<close> builds the generator from
  the resolved interval and the type.
\<close>

definition DeterministIntegerMutator_init ::
  "(int \<Rightarrow> int \<Rightarrow> Integer \<Rightarrow> 'g) \<Rightarrow> int \<Rightarrow> domain_obj option \<Rightarrow> interval_arg
     \<Rightarrow> error + 'g DeterministIntegerMutator"
where
  "DeterministIntegerMutator_init createValues cmax domain interval =
     (case domain of
        None \<Rightarrow> Inl (Exception ''Domain should be known to initialize a mutator'')
      | Some NotAVariable \<Rightarrow> Inl (Exception ''Mutator domain should be of type AbstractVariable'')
      | Some (Variable None) \<Rightarrow> Inl (Exception ''Mutator domain should have a dataType Integer'')
      | Some (Variable (Some OtherType)) \<Rightarrow>
          Inl (Exception ''Mutator domain dataType should be an Integer'')
      | Some (Variable (Some (IntegerType t))) \<Rightarrow>
          (case (case interval of
                   IntervalTuple a b \<Rightarrow>
                     Inr (max a (getMinStorageValue t), min b (getMaxStorageValue t))
                 | DEFAULT_INTERVAL \<Rightarrow> Inr (getMinValue t, getMaxValue t)
                 | IntervalNone \<Rightarrow> Inr (getMinValue t, getMaxValue t)
                 | FULL_INTERVAL \<Rightarrow> Inr (getMinStorageValue t, getMaxStorageValue t)
                 | IntervalOther \<Rightarrow>
                     Inl (Exception ''Not enough information to generate the mutated data''))
           of
             Inl e \<Rightarrow> Inl e
           | Inr (lo, hi) \<Rightarrow>
               Inr \<lparr>mut_minValue = lo, mut_maxValue = hi, mut_dataType = t,
                    currentCounter = 0, counterMax = cmax, ng = createValues lo hi t\<rparr>))"

text \<open>
  \<^verbatim>\<open>generate\<close>.  \<^verbatim>\<open>DeterministGenerator.getNewValue\<close> and \<^verbatim>\<open>Integer.decode\<close> are not part of
  the sources at hand and are parameters, each of which may raise.  The counter is
  incremented before the generator is asked, as in the source.
\<close>

definition generate ::
  "('g \<Rightarrow> (error + 'v) \<times> 'g) \<Rightarrow> ('v \<Rightarrow> error + 'b) \<Rightarrow> 'g DeterministIntegerMutator
     \<Rightarrow> (error + 'b) \<times> 'g DeterministIntegerMutator"
where
  "generate getNewValue decode self =
     (if currentCounter self < counterMax self then
        (let self1 = self\<lparr>currentCounter := currentCounter self + 1\<rparr>;
             (val, ng1) = getNewValue (ng self1);
             self2 = self1\<lparr>ng := ng1\<rparr>
         in case val of
              Inl e \<Rightarrow> (Inl e, self2)
            | Inr v \<Rightarrow> (decode v, self2))
      else (Inl (Exception ''Max mutation counter reached''), self))"

text \<open>A run of \<open>k\<close> successive calls of \<^verbatim>\<open>generate\<close>.\<close>

fun generates ::
  "('g \<Rightarrow> (error + 'v) \<times> 'g) \<Rightarrow> ('v \<Rightarrow> error + 'b) \<Rightarrow> nat \<Rightarrow> 'g DeterministIntegerMutator
     \<Rightarrow> (error + 'b) list \<times> 'g DeterministIntegerMutator"
where
  "generates getNewValue decode 0 m = ([], m)"
| "generates getNewValue decode (Suc k) m =
     (let (r, m1) = generate getNewValue decode m;
          (rs, m2) = generates getNewValue decode k m1
      in (r # rs, m2))"

text \<open>
  A concrete mutator for the examples: a generator that counts upwards and a decoder that
  returns the value as it is.
\<close>

definition count_up :: "int \<Rightarrow> (error + int) \<times> int" where
  "count_up n = (Inr n, n + 1)"

definition decode_id :: "int \<Rightarrow> error + int" where
  "decode_id v = Inr v"

definition mutator_cap2 :: "int DeterministIntegerMutator" where
  "mutator_cap2 =
     \<lparr>mut_minValue = 0, mut_maxValue = 255, mut_dataType = uint8_Integer,
      currentCounter = 0, counterMax = 2, ng = 0\<rparr>"

section \<open>Properties of the xorshift generator\<close>

subsection \<open>Helper lemmas\<close>

lemma xorshift8_values: "xorshift8 14 = 126" "xorshift8 126 = 149"
  by (simp_all add: xorshift8_def)

lemma inner_next_bounds:
  "inner_next d g = (Inr (Some v), g') \<Longrightarrow> minValue g \<le> v \<and> v \<le> maxValue g"
proof (induction d arbitrary: g g' v)
  case 0
  then show ?case by simp
next
  case (Suc d)
  show ?case
  proof (cases "firstCall g")
    case True
    with Suc.prems show ?thesis
      by (auto simp: Let_def split: if_splits sum.splits prod.splits dest!: Suc.IH)
  next
    case False
    with Suc.prems show ?thesis
      by (auto simp: Let_def xorshift_def split: if_splits sum.splits prod.splits dest!: Suc.IH)
  qed
qed

lemma inner_next_frame:
  "inner_next d g = (r, g') \<Longrightarrow> \<exists>s f. g' = g\<lparr>state := s, firstCall := f\<rparr>"
proof (induction d arbitrary: g g' r)
  case 0
  then show ?case by (cases g) auto
next
  case (Suc d)
  show ?case
  proof (cases "firstCall g")
    case True
    with Suc.prems show ?thesis
      by (cases g) (auto simp: Let_def split: if_splits sum.splits prod.splits dest!: Suc.IH)
  next
    case False
    with Suc.prems show ?thesis
      by (cases g) (auto simp: Let_def xorshift_def split: if_splits sum.splits prod.splits dest!: Suc.IH)
  qed
qed



lemma next_frame:
  "XorShiftGenerator_next rl g = (r, g') \<Longrightarrow>
     \<exists>s f. g' = g\<lparr>state := s, firstCall := f,
            nbCall := (nbCall g + 1) mod (\<bar>maxValue g - minValue g\<bar> + 1)\<rparr>"
  unfolding XorShiftGenerator_next_def Let_def
  by (cases g) (auto dest!: inner_next_frame split: if_splits)

lemma next_reset:
  "nbCall g = 0 \<Longrightarrow>
     XorShiftGenerator_next rl (g\<lparr>state := s, firstCall := f\<rparr>) = XorShiftGenerator_next rl g"
  by (simp add: XorShiftGenerator_next_def)

lemma draws_frame:
  "draws rl k g = (rs, g') \<Longrightarrow>
     \<exists>s f. g' = g\<lparr>state := s, firstCall := f,
            nbCall := (if k = 0 then nbCall g
                       else (nbCall g + int k) mod (\<bar>maxValue g - minValue g\<bar> + 1))\<rparr>"
proof (induction k arbitrary: g rs g')
  case 0
  then show ?case by (cases g) auto
next
  case (Suc k)
  obtain r g1 where n: "XorShiftGenerator_next rl g = (r, g1)" by (cases "XorShiftGenerator_next rl g")
  obtain rs1 where d: "draws rl k g1 = (rs1, g')"
    using Suc.prems n by (auto split: prod.splits)
  from next_frame[OF n] obtain s f where g1: "g1 = g\<lparr>state := s, firstCall := f,
            nbCall := (nbCall g + 1) mod (\<bar>maxValue g - minValue g\<bar> + 1)\<rparr>" by blast
  from Suc.IH[OF d] obtain s' f' where g': "g' = g1\<lparr>state := s', firstCall := f',
            nbCall := (if k = 0 then nbCall g1
                       else (nbCall g1 + int k) mod (\<bar>maxValue g1 - minValue g1\<bar> + 1))\<rparr>" by blast
  have "(if k = 0 then nbCall g1
                       else (nbCall g1 + int k) mod (\<bar>maxValue g1 - minValue g1\<bar> + 1))
      = (nbCall g + int (Suc k)) mod (\<bar>maxValue g - minValue g\<bar> + 1)"
  proof -
    have "((nbCall g + 1) mod (\<bar>maxValue g - minValue g\<bar> + 1) + int k)
            mod (\<bar>maxValue g - minValue g\<bar> + 1)
          = (nbCall g + 1 + int k) mod (\<bar>maxValue g - minValue g\<bar> + 1)"
      by (rule mod_add_left_eq)
    then show ?thesis by (simp add: g1 add.commute add.left_commute)
  qed
  with g' have "g' = g\<lparr>state := s', firstCall := f',
            nbCall := (nbCall g + int (Suc k)) mod (\<bar>maxValue g - minValue g\<bar> + 1)\<rparr>"
    by (simp add: g1)
  then show ?case by auto
qed

lemma draws_add:
  "draws rl (a + b) g =
     (fst (draws rl a g) @ fst (draws rl b (snd (draws rl a g))),
      snd (draws rl b (snd (draws rl a g))))"
  by (induction a arbitrary: g) (auto simp: Let_def split: prod.splits)

lemma draws_reset:
  "nbCall g = 0 \<Longrightarrow> fst (draws rl k (g\<lparr>state := s, firstCall := f\<rparr>)) = fst (draws rl k g)"
  by (cases k) (simp_all add: next_reset)

lemma draws_period:
  assumes "nbCall g = 0"
  shows "fst (draws rl (nat (\<bar>maxValue g - minValue g\<bar> + 1) + m) g)
         = fst (draws rl (nat (\<bar>maxValue g - minValue g\<bar> + 1)) g) @ fst (draws rl m g)"
proof -
  define n where "n = nat (\<bar>maxValue g - minValue g\<bar> + 1)"
  obtain rs gn where d: "draws rl n g = (rs, gn)" by (cases "draws rl n g")
  have n0: "n \<noteq> 0" "int n = \<bar>maxValue g - minValue g\<bar> + 1" by (simp_all add: n_def)
  from draws_frame[OF d] obtain s f where "gn = g\<lparr>state := s, firstCall := f, nbCall := 0\<rparr>"
    using n0 assms by auto
  then have gn: "gn = g\<lparr>state := s, firstCall := f\<rparr>" using assms by (cases g) auto
  show ?thesis
    unfolding n_def[symmetric] draws_add using d gn draws_reset[OF assms] by simp
qed

lemma draws_periods:
  assumes "nbCall g = 0"
  shows "fst (draws rl (j * nat (\<bar>maxValue g - minValue g\<bar> + 1) + m) g)
         = concat (replicate j (fst (draws rl (nat (\<bar>maxValue g - minValue g\<bar> + 1)) g)))
           @ fst (draws rl m g)"
proof -
  define n where "n = nat (\<bar>maxValue g - minValue g\<bar> + 1)"
  have period: "fst (draws rl (n + k) g) = fst (draws rl n g) @ fst (draws rl k g)" for k
    unfolding n_def by (rule draws_period[OF assms])
  have "fst (draws rl (j * n + m) g) = concat (replicate j (fst (draws rl n g))) @ fst (draws rl m g)"
  proof (induction j)
    case 0
    then show ?case by simp
  next
    case (Suc j)
    have "fst (draws rl (Suc j * n + m) g) = fst (draws rl (n + (j * n + m)) g)"
      by (simp add: add.assoc)
    also have "\<dots> = fst (draws rl n g) @ fst (draws rl (j * n + m) g)"
      by (rule period)
    finally show ?case using Suc.IH by simp
  qed
  then show ?thesis by (simp add: n_def)
qed

lemma next_forced_zero:
  assumes "nbCall g = 0" and "minValue g \<le> 0" and "0 \<le> maxValue g" and "1 \<le> rl"
  shows "fst (XorShiftGenerator_next rl g) = Inr (Some 0)"
proof -
  obtain d where "rl = Suc d" using assms(4) by (cases rl) auto
  then show ?thesis using assms
    by (simp add: XorShiftGenerator_next_def Let_def uint_to_int_def)
qed


lemma draws_Suc:
  "draws rl (Suc k) g =
     (fst (XorShiftGenerator_next rl g) # fst (draws rl k (snd (XorShiftGenerator_next rl g))),
      snd (draws rl k (snd (XorShiftGenerator_next rl g))))"
  by (simp add: Let_def split: prod.splits)







lemma xorshift8_203: "xorshift8 203 = 1" by (simp add: xorshift8_def)

lemma next_via_entry: "XorShiftGenerator_next rl g = inner_next rl (next_entry g)"
  by (simp add: XorShiftGenerator_next_def next_entry_def Let_def)

lemma after_draw_fields:
  "signed (after_draw g) = signed g" "bitsize (after_draw g) = bitsize g"
  "minValue (after_draw g) = minValue g" "maxValue (after_draw g) = maxValue g"
  "xorshift_func (after_draw g) = xorshift_func g" "\<not> firstCall (after_draw g)"
  "state (after_draw g) = (if firstCall g then state g else xorshift_func g (state g))"
  by (simp_all add: after_draw_def xorshift_def Let_def)

lemma raw_draw_after: "raw_draw (after_draw g) j = raw_draw g (Suc j)"
  by (simp add: raw_draw_def after_draw_fields funpow_swap1)

lemma convert_draw_after: "convert_draw (after_draw g) x = convert_draw g x"
  by (simp add: convert_draw_def after_draw_fields)

lemma accepted_after: "accepted (after_draw g) j v = accepted g (Suc j) v"
  by (simp add: accepted_def raw_draw_after convert_draw_after after_draw_fields)

lemma rejected_after: "rejected (after_draw g) j = rejected g (Suc j)"
  by (simp add: rejected_def raw_draw_after convert_draw_after after_draw_fields
      split: sum.splits)

lemma raw_draw_0: "raw_draw g 0 = (if firstCall g then 0 else xorshift_func g (state g))"
  by (simp add: raw_draw_def)

lemma inner_next_step:
  assumes "firstCall g \<or> 2 \<le> d"
  shows "inner_next (Suc d) g =
     (case convert_draw g (raw_draw g 0) of
        Inl e \<Rightarrow> (Inl e, after_draw g)
      | Inr r \<Rightarrow>
          if \<not> (minValue g \<le> r \<and> r \<le> maxValue g) then
            (case inner_next d (after_draw g) of
               (Inl e, g2) \<Rightarrow> if e = RecursionError then (Inr None, g2) else (Inl e, g2)
             | (Inr v, g2) \<Rightarrow> (Inr v, g2))
          else (Inr (Some r), after_draw g))"
proof (cases "firstCall g")
  case True
  then show ?thesis
    by (simp add: raw_draw_0 convert_draw_def after_draw_def Let_def split: sum.splits)
next
  case False
  with assms have "\<not> d < 2" by simp
  with False show ?thesis
    by (simp add: raw_draw_0 convert_draw_def after_draw_def xorshift_def Let_def
        split: sum.splits)
qed

lemma inner_next_short:
  "\<not> firstCall g \<Longrightarrow> d < 2 \<Longrightarrow> inner_next (Suc d) g = (Inl RecursionError, g)"
  by simp

lemma inner_next_first_accepted:
  "inner_next d g = (Inr (Some v), g') \<Longrightarrow> \<exists>k. accepted g k v \<and> (\<forall>j<k. rejected g j)"
proof (induction d arbitrary: g)
  case 0
  then show ?case by simp
next
  case (Suc d)
  have ok: "firstCall g \<or> 2 \<le> d"
  proof (rule ccontr)
    assume "\<not> (firstCall g \<or> 2 \<le> d)"
    then have "inner_next (Suc d) g = (Inl RecursionError, g)" by simp
    with Suc.prems show False by simp
  qed
  note step = inner_next_step[OF ok]
  show ?case
  proof (cases "convert_draw g (raw_draw g 0)")
    case (Inl e)
    with Suc.prems step show ?thesis by simp
  next
    case (Inr r)
    show ?thesis
    proof (cases "minValue g \<le> r \<and> r \<le> maxValue g")
      case True
      with Inr Suc.prems step have "v = r" by simp
      with Inr True have "accepted g 0 v" by (simp add: accepted_def)
      then show ?thesis by (intro exI[of _ 0]) simp
    next
      case False
      with Inr have r0: "rejected g 0" by (simp add: rejected_def)
      from False Inr Suc.prems step
      have "inner_next d (after_draw g) = (Inr (Some v), g')"
        by (auto split: prod.splits sum.splits if_splits)
      from Suc.IH[OF this] obtain k where
        k: "accepted (after_draw g) k v" "\<forall>j<k. rejected (after_draw g) j" by blast
      have "accepted g (Suc k) v" using k(1) by (simp add: accepted_after)
      moreover have "\<forall>j<Suc k. rejected g j"
      proof (intro allI impI)
        fix j assume "j < Suc k"
        then show "rejected g j"
          using r0 k(2) by (cases j) (simp_all add: rejected_after)
      qed
      ultimately show ?thesis by blast
    qed
  qed
qed

lemma inner_next_returns_first_accepted:
  "accepted g k v \<Longrightarrow> \<forall>j<k. rejected g j \<Longrightarrow> k + 3 \<le> d
     \<Longrightarrow> fst (inner_next d g) = Inr (Some v)"
proof (induction k arbitrary: g d)
  case 0
  then obtain d' where d: "d = Suc d'" "2 \<le> d'" by (cases d) auto
  from 0(1) show ?case
    unfolding d(1) inner_next_step[of g d', OF disjI2[OF d(2)]]
    by (simp add: accepted_def)
next
  case (Suc k)
  then obtain d' where d: "d = Suc d'" "2 \<le> d'" "k + 3 \<le> d'" by (cases d) auto
  from Suc.prems(2) have r0: "rejected g 0" by simp
  then obtain r where r: "convert_draw g (raw_draw g 0) = Inr r"
    "\<not> (minValue g \<le> r \<and> r \<le> maxValue g)"
    by (auto simp: rejected_def split: sum.splits)
  have a: "accepted (after_draw g) k v" using Suc.prems(1) by (simp add: accepted_after)
  have b: "\<forall>j<k. rejected (after_draw g) j" using Suc.prems(2) by (simp add: rejected_after)
  have "fst (inner_next d' (after_draw g)) = Inr (Some v)" by (rule Suc.IH[OF a b d(3)])
  then show ?case
    unfolding d(1) inner_next_step[of g d', OF disjI2[OF d(2)]]
    using r by (auto split: prod.splits sum.splits)
qed


lemma next_entry_fields:
  "minValue (next_entry g) = minValue g" "maxValue (next_entry g) = maxValue g"
  "signed (next_entry g) = signed g" "bitsize (next_entry g) = bitsize g"
  "xorshift_func (next_entry g) = xorshift_func g"
  "state (next_entry g) = (if nbCall g = 0 then seed g else state g)"
  "firstCall (next_entry g) = (nbCall g = 0)"
  by (simp_all add: next_entry_def Let_def)

lemma xorshift8_twice_14: "(xorshift8 ^^ 2) 14 = 149"
  by (simp add: numeral_2_eq_2 xorshift8_values)







subsection \<open>The claims\<close>

text \<open>
  C3.  The generator built with seed 14 on the interval 0..255 (for which the unit-size
  computation gives 8 bits) uses the 8-bit transition, and its first three draws are 0
  (the forced first value), 126 and 149, the latter two being the transition applied to
  14 and to 126.  This holds for every frame budget of at least three.
\<close>

theorem C3_first_three_draws:
  assumes "cus 256 = Inr 8" and "3 \<le> rl"
  shows "\<exists>g. XorShiftGenerator_init cus 14 (Some 0) (Some 255) False = Inr g
           \<and> xorshift_func g = xorshift8
           \<and> xorshift8 14 = 126 \<and> xorshift8 126 = 149
           \<and> fst (draws rl 3 g) = [Inr (Some 0), Inr (Some 126), Inr (Some 149)]"
proof -
  obtain d where rl: "rl = Suc (Suc (Suc d))"
    using assms(2) by (metis le_Suc_ex numeral_3_eq_3 add_Suc)
  show ?thesis
    using assms(1)
    by (simp add: XorShiftGenerator_init_def rl numeral_3_eq_3 XorShiftGenerator_next_def
        xorshift_def xorshift8_values Let_def)
qed

theorem C3_first_three_draws_witness:
  "computeUnitSize 256 = Inr 8 \<and> (3::nat) \<le> 1000
   \<and> (\<exists>g. XorShiftGenerator_init computeUnitSize 14 (Some 0) (Some 255) False = Inr g
           \<and> xorshift_func g = xorshift8
           \<and> xorshift8 14 = 126 \<and> xorshift8 126 = 149
           \<and> fst (draws 1000 3 g) = [Inr (Some 0), Inr (Some 126), Inr (Some 149)])"
proof -
  have h1: "computeUnitSize 256 = Inr 8" by (simp add: computeUnitSize_def)
  have h2: "(3::nat) \<le> 1000" by simp
  show ?thesis using h1 h2 C3_first_three_draws [of computeUnitSize 1000] by blast
qed

text \<open>
  C7.  Whatever the generator and the frame budget, a call of \<^verbatim>\<open>next\<close> that returns an
  integer returns one inside the interval, and that integer is the first raw draw of the
  call that is accepted: every raw draw before it was rejected.  Conversely, when the
  \<open>n\<close>-th raw draw is the first accepted one and the frame budget is at least \<open>n + 3\<close>, the
  call goes through the \<open>n\<close> rejected draws, draws again each time, and returns that
  value.
\<close>

theorem C7_next_in_interval_redrawn:
  "(XorShiftGenerator_next rl g = (Inr (Some v), g') \<longrightarrow>
      minValue g \<le> v \<and> v \<le> maxValue g
      \<and> (\<exists>k. accepted (next_entry g) k v \<and> (\<forall>j<k. rejected (next_entry g) j)))
   \<and> (accepted (next_entry g) n w \<and> (\<forall>j<n. rejected (next_entry g) j) \<and> n + 3 \<le> rl \<longrightarrow>
      fst (XorShiftGenerator_next rl g) = Inr (Some w))"
proof (intro conjI impI)
  assume r: "XorShiftGenerator_next rl g = (Inr (Some v), g')"
  then have i: "inner_next rl (next_entry g) = (Inr (Some v), g')"
    by (simp only: next_via_entry)
  from inner_next_bounds[OF i] show "minValue g \<le> v" "v \<le> maxValue g"
    by (simp_all add: next_entry_fields)
  from inner_next_first_accepted[OF i]
  show "\<exists>k. accepted (next_entry g) k v \<and> (\<forall>j<k. rejected (next_entry g) j)" .
next
  assume a: "accepted (next_entry g) n w \<and> (\<forall>j<n. rejected (next_entry g) j) \<and> n + 3 \<le> rl"
  then show "fst (XorShiftGenerator_next rl g) = Inr (Some w)"
    unfolding next_via_entry by (intro inner_next_returns_first_accepted) blast+
qed

theorem C7_next_in_interval_redrawn_witness:
  "rejected (next_entry gen_149) 0 \<and> rejected (next_entry gen_149) 1
   \<and> accepted (next_entry gen_149) 2 149 \<and> (2::nat) + 3 \<le> 1000
   \<and> fst (XorShiftGenerator_next 1000 gen_149) = Inr (Some 149)
   \<and> minValue gen_149 \<le> 149 \<and> 149 \<le> maxValue gen_149"
proof -
  have r0: "rejected (next_entry gen_149) 0"
    by (simp add: rejected_def raw_draw_def convert_draw_def next_entry_fields gen_149_def)
  have r1: "rejected (next_entry gen_149) 1"
    by (simp add: rejected_def raw_draw_def convert_draw_def next_entry_fields gen_149_def
        xorshift8_values)
  have a2: "accepted (next_entry gen_149) 2 149"
    by (simp add: accepted_def raw_draw_def convert_draw_def next_entry_fields gen_149_def
        xorshift8_twice_14)
  have rj: "\<forall>j<2. rejected (next_entry gen_149) j"
  proof (intro allI impI)
    fix j :: nat assume "j < 2"
    then have "j = 0 \<or> j = 1" by auto
    then show "rejected (next_entry gen_149) j" using r0 r1 by auto
  qed
  have b: "(2::nat) + 3 \<le> 1000" by simp
  from C7_next_in_interval_redrawn [of 1000 gen_149 149 "snd (XorShiftGenerator_next 1000 gen_149)" 2 149] a2 rj b
  have f: "fst (XorShiftGenerator_next 1000 gen_149) = Inr (Some 149)" by blast
  then have "XorShiftGenerator_next 1000 gen_149
             = (Inr (Some 149), snd (XorShiftGenerator_next 1000 gen_149))"
    by (metis prod.collapse)
  with C7_next_in_interval_redrawn [of 1000 gen_149 149 "snd (XorShiftGenerator_next 1000 gen_149)" 2 149]
  have "minValue gen_149 \<le> 149 \<and> 149 \<le> maxValue gen_149" by blast
  with r0 r1 a2 b f show ?thesis by blast
qed

text \<open>
  C9.  Construction with seed 0 raises the seed error whatever the other arguments (and
  whatever the unit-size computation), and a generator that was constructed never starts
  in the all-zero state.
\<close>

theorem C9_seed_zero_rejected:
  "XorShiftGenerator_init cus 0 mn mx sg =
     Inl (ValueError ''A seed=0 is not compatible with the generator XorShiftGenerator'')
   \<and> (\<forall>g. XorShiftGenerator_init cus sd mn mx sg = Inr g \<longrightarrow> state g \<noteq> 0)"
  by (auto simp: XorShiftGenerator_init_def Let_def split: if_splits option.splits sum.splits)

theorem C9_seed_zero_rejected_witness:
  "XorShiftGenerator_init computeUnitSize 0 (Some 0) (Some 255) False =
     Inl (ValueError ''A seed=0 is not compatible with the generator XorShiftGenerator'')
   \<and> (\<exists>g. XorShiftGenerator_init computeUnitSize 14 (Some 0) (Some 255) False = Inr g
          \<and> state g \<noteq> 0)"
proof -
  have "\<exists>g. XorShiftGenerator_init computeUnitSize 14 (Some 0) (Some 255) False = Inr g"
    by (simp add: XorShiftGenerator_init_def computeUnitSize_def)
  then show ?thesis
    using C9_seed_zero_rejected [of computeUnitSize "Some 0" "Some 255" False 14] by auto
qed




text \<open>
  C10, as amended.  For a generator whose call counter is 0 (as after construction), with
  \<open>n = |max - min| + 1\<close>: after \<open>k\<close> calls the counter is \<open>k mod n\<close>; a call made when the
  counter is 0 restarts from the seed with the first-call flag set; the sequence of
  results repeats with period \<open>n\<close>; and when 0 lies in the interval every period begins
  with the forced value 0.
\<close>

theorem C10_counter_and_period:
  assumes "nbCall g = 0"
  shows "nbCall (snd (draws rl k g)) = int k mod (\<bar>maxValue g - minValue g\<bar> + 1)
    \<and> (int k mod (\<bar>maxValue g - minValue g\<bar> + 1) = 0 \<longrightarrow>
         XorShiftGenerator_next rl (snd (draws rl k g))
         = inner_next rl ((snd (draws rl k g))
             \<lparr>firstCall := True, state := seed g,
              nbCall := 1 mod (\<bar>maxValue g - minValue g\<bar> + 1)\<rparr>))
    \<and> fst (draws rl (j * nat (\<bar>maxValue g - minValue g\<bar> + 1) + m) g)
        = concat (replicate j (fst (draws rl (nat (\<bar>maxValue g - minValue g\<bar> + 1)) g)))
          @ fst (draws rl m g)
    \<and> (minValue g \<le> 0 \<and> 0 \<le> maxValue g \<and> 1 \<le> rl \<longrightarrow>
         fst (draws rl (j * nat (\<bar>maxValue g - minValue g\<bar> + 1) + 1) g)
         = concat (replicate j (fst (draws rl (nat (\<bar>maxValue g - minValue g\<bar> + 1)) g)))
           @ [Inr (Some 0)])"
proof -
  obtain rs gk where d: "draws rl k g = (rs, gk)" by (cases "draws rl k g")
  from draws_frame[OF d] assms obtain s f where
    gk: "gk = g\<lparr>state := s, firstCall := f,
                 nbCall := int k mod (\<bar>maxValue g - minValue g\<bar> + 1)\<rparr>"
    by (cases "k = 0") auto
  have c1: "nbCall (snd (draws rl k g)) = int k mod (\<bar>maxValue g - minValue g\<bar> + 1)"
    by (simp add: d gk)
  have c2: "int k mod (\<bar>maxValue g - minValue g\<bar> + 1) = 0 \<Longrightarrow>
         XorShiftGenerator_next rl (snd (draws rl k g))
         = inner_next rl ((snd (draws rl k g))
             \<lparr>firstCall := True, state := seed g,
              nbCall := 1 mod (\<bar>maxValue g - minValue g\<bar> + 1)\<rparr>)"
    by (simp add: d gk XorShiftGenerator_next_def)
  have c3: "fst (draws rl (j * nat (\<bar>maxValue g - minValue g\<bar> + 1) + m) g)
        = concat (replicate j (fst (draws rl (nat (\<bar>maxValue g - minValue g\<bar> + 1)) g)))
          @ fst (draws rl m g)"
    by (rule draws_periods[OF assms])
  have c4: "fst (draws rl (j * nat (\<bar>maxValue g - minValue g\<bar> + 1) + 1) g)
         = concat (replicate j (fst (draws rl (nat (\<bar>maxValue g - minValue g\<bar> + 1)) g)))
           @ [Inr (Some 0)]"
    if "minValue g \<le> 0 \<and> 0 \<le> maxValue g \<and> 1 \<le> rl"
  proof -
    have "fst (XorShiftGenerator_next rl g) = Inr (Some 0)"
      using next_forced_zero[OF assms] that by blast
    then have one: "fst (draws rl 1 g) = [Inr (Some 0)]"
      by (simp add: draws_Suc del: draws.simps(2))
    have "fst (draws rl (j * nat (\<bar>maxValue g - minValue g\<bar> + 1) + 1) g)
         = concat (replicate j (fst (draws rl (nat (\<bar>maxValue g - minValue g\<bar> + 1)) g)))
           @ fst (draws rl 1 g)"
      by (rule draws_periods[OF assms])
    then show ?thesis by (simp only: one)
  qed
  from c1 c2 c3 c4 show ?thesis by blast
qed

theorem C10_counter_and_period_witness:
  "nbCall gen_203 = 0
   \<and> int 2 mod (\<bar>maxValue gen_203 - minValue gen_203\<bar> + 1) = 0
   \<and> minValue gen_203 \<le> 0 \<and> 0 \<le> maxValue gen_203 \<and> (1::nat) \<le> 1000
   \<and> nbCall (snd (draws 1000 2 gen_203)) = 0
   \<and> fst (draws 1000 (1 * 2 + 1) gen_203) = fst (draws 1000 2 gen_203) @ [Inr (Some 0)]"
proof -
  have h: "nbCall gen_203 = 0" by (simp add: gen_203_def)
  have n: "nat (\<bar>maxValue gen_203 - minValue gen_203\<bar> + 1) = 2" by (simp add: gen_203_def)
  have b: "minValue gen_203 \<le> 0 \<and> 0 \<le> maxValue gen_203 \<and> (1::nat) \<le> 1000"
    by (simp add: gen_203_def)
  have m: "int 2 mod (\<bar>maxValue gen_203 - minValue gen_203\<bar> + 1) = 0"
    by (simp add: gen_203_def)
  from C10_counter_and_period [OF h, of 1000 2 1 1] b m
  have "nbCall (snd (draws 1000 2 gen_203)) = 0"
    and "fst (draws 1000 (1 * nat (\<bar>maxValue gen_203 - minValue gen_203\<bar> + 1) + 1) gen_203)
         = concat (replicate 1
             (fst (draws 1000 (nat (\<bar>maxValue gen_203 - minValue gen_203\<bar> + 1)) gen_203)))
           @ [Inr (Some 0)]"
    by (metis, blast)
  then show ?thesis using h b m unfolding n by simp
qed

text \<open>
  C10 as stated fails where 0 is outside the interval: the generator constructed with
  seed 14 on the interval 126..126 has \<open>n = 1\<close>, and its first draw is 126, because the
  forced 0 is rejected like any other value outside the interval.
\<close>

theorem C10_first_draw_not_zero:
  "XorShiftGenerator_init computeUnitSize 14 (Some 126) (Some 126) False = Inr gen_126
   \<and> fst (XorShiftGenerator_next 1000 gen_126) = Inr (Some 126)
   \<and> fst (XorShiftGenerator_next 1000 gen_126) \<noteq> Inr (Some 0)"
  by (simp add: XorShiftGenerator_init_def computeUnitSize_def gen_126_def
      XorShiftGenerator_next_def xorshift_def xorshift8_values Let_def eval_nat_numeral)

text \<open>
  C1.  The pair returned by \<^verbatim>\<open>get_state\<close> leaves out the call counter, and \<^verbatim>\<open>__next__\<close>
  overwrites the state with the seed whenever that counter is 0.  With seed 203 on the
  interval 0..1: after one call the saved state is \<open>(203, False)\<close> and the next draw is 1;
  restoring the saved state at that point and drawing again gives 0.
\<close>

theorem C1_restore_diverges:
  "XorShiftGenerator_init computeUnitSize 203 (Some 0) (Some 1) False = Inr gen_203
   \<and> (let g1 = snd (draws 1000 1 gen_203);
           s = get_state g1;
           (a, g2) = draws 1000 1 g1;
           (b, g3) = draws 1000 1 (set_state g2 s)
       in s = (203, False) \<and> a = [Inr (Some 1)] \<and> b = [Inr (Some 0)])"
  by (simp add: XorShiftGenerator_init_def computeUnitSize_def gen_203_def get_state_def
      set_state_def XorShiftGenerator_next_def xorshift_def xorshift8_203 Let_def eval_nat_numeral)

section \<open>Properties of symbol equality\<close>

text \<open>
  C8.  \<^verbatim>\<open>s1 == other\<close> holds exactly when \<open>other\<close> is a symbol with the name of \<open>s1\<close>, and
  \<^verbatim>\<open>!=\<close> is its negation.  Two symbols with the same fields and different names are not
  equal; two symbols with different fields and the same name are equal.
\<close>

theorem C8_symbol_equality_by_name:
  "(Symbol_eq s1 other \<longleftrightarrow> (\<exists>s2. other = SymbolObj s2 \<and> name s1 = name s2))
   \<and> (Symbol_ne s1 other \<longleftrightarrow> \<not> Symbol_eq s1 other)
   \<and> (symbol_fields s1 = symbol_fields s2 \<and> name s1 \<noteq> name s2
        \<longrightarrow> \<not> Symbol_eq s1 (SymbolObj s2) \<and> Symbol_ne s1 (SymbolObj s2))
   \<and> (symbol_fields s1 \<noteq> symbol_fields s3 \<and> name s1 = name s3
        \<longrightarrow> Symbol_eq s1 (SymbolObj s3) \<and> \<not> Symbol_ne s1 (SymbolObj s3))"
  by (cases other) (auto simp: Symbol_eq_def Symbol_ne_def)

theorem C8_symbol_equality_by_name_witness:
  "symbol_fields sym_A1 = symbol_fields sym_B1 \<and> name sym_A1 \<noteq> name sym_B1
   \<and> \<not> Symbol_eq sym_A1 (SymbolObj sym_B1) \<and> Symbol_ne sym_A1 (SymbolObj sym_B1)
   \<and> symbol_fields sym_A1 \<noteq> symbol_fields sym_A23 \<and> name sym_A1 = name sym_A23
   \<and> Symbol_eq sym_A1 (SymbolObj sym_A23) \<and> \<not> Symbol_ne sym_A1 (SymbolObj sym_A23)"
proof -
  have h1: "symbol_fields sym_A1 = symbol_fields sym_B1 \<and> name sym_A1 \<noteq> name sym_B1"
    by (simp add: sym_A1_def sym_B1_def)
  have h2: "symbol_fields sym_A1 \<noteq> symbol_fields sym_A23 \<and> name sym_A1 = name sym_A23"
    by (simp add: sym_A1_def sym_A23_def)
  show ?thesis
    using h1 h2 C8_symbol_equality_by_name [of sym_A1 "SymbolObj sym_B1" sym_B1 sym_A23] by blast
qed

section \<open>Properties of the deterministic integer mutator\<close>

subsection \<open>Helper lemmas\<close>

lemma generate_ok:
  assumes "currentCounter m < counterMax m"
    and "\<forall>s. \<exists>v s'. getNewValue s = (Inr v, s')" and "\<forall>v. \<exists>b. decode v = Inr b"
  shows "\<exists>b m'. generate getNewValue decode m = (Inr b, m')
           \<and> currentCounter m' = currentCounter m + 1 \<and> counterMax m' = counterMax m"
proof -
  obtain v s' where g: "getNewValue (ng m) = (Inr v, s')" using assms(2) by blast
  obtain b where d: "decode v = Inr b" using assms(3) by blast
  show ?thesis using assms(1) g d by (simp add: generate_def Let_def)
qed

lemma generate_exhausted:
  "\<not> currentCounter m < counterMax m \<Longrightarrow>
     generate getNewValue decode m = (Inl (Exception ''Max mutation counter reached''), m)"
  by (simp add: generate_def)

lemma generates_Suc:
  "generates gnv dec (Suc k) m =
     (fst (generate gnv dec m) # fst (generates gnv dec k (snd (generate gnv dec m))),
      snd (generates gnv dec k (snd (generate gnv dec m))))"
  by (simp add: Let_def split: prod.splits)

lemma generates_ok:
  assumes "\<forall>s. \<exists>v s'. getNewValue s = (Inr v, s')" and "\<forall>v. \<exists>b. decode v = Inr b"
  shows "k = 0 \<or> currentCounter m + int k \<le> counterMax m \<Longrightarrow>
     list_all (\<lambda>r. \<not> isl r) (fst (generates getNewValue decode k m))
     \<and> currentCounter (snd (generates getNewValue decode k m)) = currentCounter m + int k
     \<and> counterMax (snd (generates getNewValue decode k m)) = counterMax m"
proof (induction k arbitrary: m)
  case 0
  show ?case by simp
next
  case (Suc k)
  have lt: "currentCounter m < counterMax m" using Suc.prems by simp
  from generate_ok[OF lt assms] obtain b m' where
    g: "generate getNewValue decode m = (Inr b, m')"
       "currentCounter m' = currentCounter m + 1" "counterMax m' = counterMax m" by blast
  have "k = 0 \<or> currentCounter m' + int k \<le> counterMax m'" using Suc.prems g(2,3) by simp
  from Suc.IH[OF this] show ?case
    by (simp add: generates_Suc g del: generates.simps(2))
qed

lemma count_up_ok: "\<forall>s. \<exists>v s'. count_up s = (Inr v, s')"
  by (simp add: count_up_def)

lemma decode_id_ok: "\<forall>v. \<exists>b. decode_id v = Inr b"
  by (simp add: decode_id_def)

subsection \<open>The claims\<close>

text \<open>
  C4.  For a domain whose type is an integer type, construction succeeds and resolves the
  interval by the policy the argument selects: a pair of integers is clamped into the
  storage bounds; \<^verbatim>\<open>DEFAULT_INTERVAL\<close> and no argument give the value bounds;
  \<^verbatim>\<open>FULL_INTERVAL\<close> gives the storage bounds.  On the 8-bit unsigned type no argument
  gives 0 and 255, and the pair (-10, 5) gives 0 and 5.
\<close>

theorem C4_interval_resolution:
  "(\<exists>m. DeterministIntegerMutator_init cv cmax (Some (Variable (Some (IntegerType t))))
            (IntervalTuple a b) = Inr m
        \<and> mut_minValue m = max a (getMinStorageValue t)
        \<and> mut_maxValue m = min b (getMaxStorageValue t))
   \<and> (\<exists>m. DeterministIntegerMutator_init cv cmax (Some (Variable (Some (IntegerType t))))
            DEFAULT_INTERVAL = Inr m
        \<and> mut_minValue m = getMinValue t \<and> mut_maxValue m = getMaxValue t)
   \<and> (\<exists>m. DeterministIntegerMutator_init cv cmax (Some (Variable (Some (IntegerType t))))
            IntervalNone = Inr m
        \<and> mut_minValue m = getMinValue t \<and> mut_maxValue m = getMaxValue t)
   \<and> (\<exists>m. DeterministIntegerMutator_init cv cmax (Some (Variable (Some (IntegerType t))))
            FULL_INTERVAL = Inr m
        \<and> mut_minValue m = getMinStorageValue t \<and> mut_maxValue m = getMaxStorageValue t)
   \<and> (\<exists>m. DeterministIntegerMutator_init cv cmax (Some (Variable (Some (IntegerType uint8_Integer))))
            IntervalNone = Inr m
        \<and> mut_minValue m = 0 \<and> mut_maxValue m = 255)
   \<and> (\<exists>m. DeterministIntegerMutator_init cv cmax (Some (Variable (Some (IntegerType uint8_Integer))))
            (IntervalTuple (- 10) 5) = Inr m
        \<and> mut_minValue m = 0 \<and> mut_maxValue m = 5)"
  by (simp add: DeterministIntegerMutator_init_def uint8_Integer_def)

text \<open>
  C6.  For a mutator whose counter is 0 and a value source that does not raise, with
  \<open>N\<close> the counter maximum (0 when it is negative): the first \<open>N\<close> calls of \<^verbatim>\<open>generate\<close>
  all return a value, the counter after \<open>k \<le> N\<close> calls is \<open>k\<close>, and the call after the
  \<open>N\<close>-th raises the exception of the exhausted budget and leaves the mutator as it is.
\<close>

theorem C6_mutation_budget:
  assumes "currentCounter m = 0"
    and "\<forall>s. \<exists>v s'. getNewValue s = (Inr v, s')" and "\<forall>v. \<exists>b. decode v = Inr b"
  shows "list_all (\<lambda>r. \<not> isl r) (fst (generates getNewValue decode (nat (counterMax m)) m))
    \<and> (\<forall>k \<le> nat (counterMax m).
          currentCounter (snd (generates getNewValue decode k m)) = int k)
    \<and> generate getNewValue decode (snd (generates getNewValue decode (nat (counterMax m)) m))
        = (Inl (Exception ''Max mutation counter reached''),
           snd (generates getNewValue decode (nat (counterMax m)) m))"
proof -
  have le: "k = 0 \<or> currentCounter m + int k \<le> counterMax m"
    if "k \<le> nat (counterMax m)" for k
    using that assms(1) by (cases "k = 0") simp_all
  have a: "list_all (\<lambda>r. \<not> isl r) (fst (generates getNewValue decode (nat (counterMax m)) m))"
    using generates_ok[OF assms(2,3) le[of "nat (counterMax m)"]] by simp
  have b: "\<forall>k \<le> nat (counterMax m).
          currentCounter (snd (generates getNewValue decode k m)) = int k"
    using generates_ok[OF assms(2,3) le] assms(1) by simp
  define mN where "mN = snd (generates getNewValue decode (nat (counterMax m)) m)"
  have "currentCounter mN = int (nat (counterMax m))" "counterMax mN = counterMax m"
    using generates_ok[OF assms(2,3) le[of "nat (counterMax m)"]] assms(1) by (simp_all add: mN_def)
  then have "\<not> currentCounter mN < counterMax mN" by simp
  from generate_exhausted[OF this] a b show ?thesis by (simp add: mN_def)
qed

theorem C6_mutation_budget_witness:
  "currentCounter mutator_cap2 = 0 \<and> nat (counterMax mutator_cap2) = 2
   \<and> (\<forall>s. \<exists>v s'. count_up s = (Inr v, s')) \<and> (\<forall>v. \<exists>b. decode_id v = Inr b)
   \<and> fst (generates count_up decode_id 2 mutator_cap2) = [Inr 0, Inr 1]
   \<and> fst (generate count_up decode_id (snd (generates count_up decode_id 2 mutator_cap2)))
        = Inl (Exception ''Max mutation counter reached'')"
proof -
  have h1: "currentCounter mutator_cap2 = 0" by (simp add: mutator_cap2_def)
  have n: "nat (counterMax mutator_cap2) = 2" by (simp add: mutator_cap2_def)
  have v: "fst (generates count_up decode_id 2 mutator_cap2) = [Inr 0, Inr 1]"
    by (simp add: mutator_cap2_def generate_def count_up_def decode_id_def Let_def
        eval_nat_numeral)
  from C6_mutation_budget [OF h1 count_up_ok decode_id_ok]
  have "generate count_up decode_id (snd (generates count_up decode_id (nat (counterMax mutator_cap2)) mutator_cap2))
        = (Inl (Exception ''Max mutation counter reached''),
           snd (generates count_up decode_id (nat (counterMax mutator_cap2)) mutator_cap2))"
    by blast
  then have "fst (generate count_up decode_id (snd (generates count_up decode_id 2 mutator_cap2)))
        = Inl (Exception ''Max mutation counter reached'')"
    unfolding n by simp
  with h1 n v count_up_ok decode_id_ok show ?thesis by blast
qed

section \<open>Properties of the Data leaf variable\<close>

lemma set_py_range_down: "set (py_range_down a b) = {b + 1..a}"
  by (simp add: py_range_down_def)

lemma domainCMP_min_size_None:
  "getData p self = Inr content \<Longrightarrow> fst (type_size (dataType self)) = None
     \<Longrightarrow> domainCMP self (Some p) = Inl TypeError"
  by (cases "type_size (dataType self)") (simp add: domainCMP_def Let_def)

text \<open>
  C2, as amended.  For a variable whose type has an integer minimum size and a path that
  offers it content: when the content is not shorter than the minimum size and no size
  between the minimum size and the smaller of the maximum size and the content length is
  0 or is accepted by \<^verbatim>\<open>canParse\<close>, \<^verbatim>\<open>domainCMP\<close> yields no branch and raises no error; when
  the content is shorter than the minimum size it yields no branch and raises no error
  either.
\<close>

theorem C2_no_candidate_no_branch_no_error:
  assumes "getData p self = Inr content"
    and "type_size (dataType self) = (Some minSize, maxSize0)"
  shows "(minSize \<le> int (length content)
          \<and> (\<forall>size \<in> {minSize..min (case maxSize0 of None \<Rightarrow> int (length content)
                                          | Some m \<Rightarrow> m) (int (length content))}.
                size \<noteq> 0 \<and> \<not> canParse (dataType self) (py_slice_to content size))
          \<longrightarrow> domainCMP self (Some p) = Inr [])
       \<and> (int (length content) < minSize \<longrightarrow> domainCMP self (Some p) = Inr [])"
  using assms
  by (auto simp: domainCMP_def Let_def filter_empty_conv set_py_range_down)

theorem C2_no_candidate_no_branch_no_error_witness:
  "getData eight_bits_path reject_all_data = Inr (replicate 8 False)
   \<and> getData four_bits_path reject_all_data = Inr (replicate 4 False)
   \<and> type_size (dataType reject_all_data) = (Some 8, Some 8)
   \<and> (8::int) \<le> int (length (replicate 8 False))
   \<and> int (length (replicate 4 False)) < (8::int)
   \<and> domainCMP reject_all_data (Some eight_bits_path) = Inr []
   \<and> domainCMP reject_all_data (Some four_bits_path) = Inr []"
proof -
  have h1: "getData eight_bits_path reject_all_data = Inr (replicate 8 False)"
    by (simp add: getData_def eight_bits_path_def reject_all_data_def)
  have h1': "getData four_bits_path reject_all_data = Inr (replicate 4 False)"
    by (simp add: getData_def four_bits_path_def reject_all_data_def)
  have h2: "type_size (dataType reject_all_data) = (Some 8, Some 8)"
    by (simp add: reject_all_data_def)
  have h3: "(8::int) \<le> int (length (replicate 8 False))
     \<and> (\<forall>size \<in> {8..min (case Some 8 of None \<Rightarrow> int (length (replicate 8 False))
                               | Some m \<Rightarrow> m) (int (length (replicate 8 False)))}.
              size \<noteq> 0
              \<and> \<not> canParse (dataType reject_all_data) (py_slice_to (replicate 8 False) size))"
    by (simp add: reject_all_data_def)
  have h4: "int (length (replicate 4 False)) < (8::int)" by simp
  from C2_no_candidate_no_branch_no_error [OF h1 h2] h3
  have a: "domainCMP reject_all_data (Some eight_bits_path) = Inr []" by blast
  from C2_no_candidate_no_branch_no_error [OF h1' h2] h4
  have b: "domainCMP reject_all_data (Some four_bits_path) = Inr []" by blast
  from h1 h1' h2 h3 h4 a b show ?thesis by blast
qed

text \<open>
  C2 as stated fails: for a type of exactly 8 bits that accepts nothing and a content of
  8 bits, the content is not shorter than the minimum size, the only size tried is 8 and
  it is refused, and \<^verbatim>\<open>domainCMP\<close> yields no branch without raising anything.
\<close>

theorem C2_no_candidate_is_silent:
  "getData eight_bits_path reject_all_data = Inr (replicate 8 False)
   \<and> type_size (dataType reject_all_data) = (Some 8, Some 8)
   \<and> (8::int) \<le> int (length (replicate 8 False))
   \<and> py_range_down (min 8 (int (length (replicate 8 False)))) (8 - 1) = [8]
   \<and> \<not> canParse (dataType reject_all_data) (py_slice_to (replicate 8 False) 8)
   \<and> domainCMP reject_all_data (Some eight_bits_path) = Inr []
   \<and> \<not> isl (domainCMP reject_all_data (Some eight_bits_path))"
  by (simp add: getData_def eight_bits_path_def reject_all_data_def domainCMP_def
      py_range_down_def upto.simps)

end
